theory Spec2Isabelle
  imports Main
begin

section \<open>Common values\<close>

text \<open>Go \<open>error\<close> values. \<open>MalformedMemberError\<close> is the error the Metadata Store reports for a
  member descriptor without its required tags; every other error carries its message.\<close>

datatype error = MalformedMemberError | Error string

text \<open>\<open>time.Duration\<close> is a count of nanoseconds.\<close>

type_synonym Duration = int

definition Second :: Duration where
  "Second = 1000000000"

section \<open>The HTTP front end (\<open>pkg/server/http.go\<close>)\<close>

subsection \<open>\<open>net/http\<close>: requests and the response writer\<close>

text \<open>What a handler can observe of \<open>http.ResponseWriter\<close>: the status line that went out and the
  bytes of the body. The first \<open>WriteHeader\<close> fixes the status; a later call is ignored by
  \<open>net/http\<close> (it only logs "superfluous response.WriteHeader call"). A \<open>Write\<close> before any
  \<open>WriteHeader\<close> sends status 200 first.\<close>

record ResponseWriter =
  status :: "nat option"
  body :: string

definition newResponseWriter :: ResponseWriter where
  "newResponseWriter = \<lparr>status = None, body = ''''\<rparr>"

definition WriteHeader :: "nat \<Rightarrow> ResponseWriter \<Rightarrow> ResponseWriter" where
  "WriteHeader code w = (case status w of None \<Rightarrow> w\<lparr>status := Some code\<rparr> | Some _ \<Rightarrow> w)"

definition Write :: "string \<Rightarrow> ResponseWriter \<Rightarrow> ResponseWriter" where
  "Write b w = (let w' = WriteHeader 200 w in w'\<lparr>body := body w' @ b\<rparr>)"

definition StatusOK :: nat where "StatusOK = 200"
definition StatusBadRequest :: nat where "StatusBadRequest = 400"
definition StatusNotFound :: nat where "StatusNotFound = 404"
definition StatusMethodNotAllowed :: nat where "StatusMethodNotAllowed = 405"
definition StatusInternalServerError :: nat where "StatusInternalServerError = 500"

definition MethodGet :: string where "MethodGet = ''GET''"
definition MethodPost :: string where "MethodPost = ''POST''"

text \<open>The parts of \<open>http.Request\<close> the handlers read. \<open>Header\<close> maps a canonical header name to
  its values; \<open>Header.Get\<close> returns the first value, or the empty string when there is none.\<close>

record Request =
  Method :: string
  URLPath :: string
  Header :: "string \<rightharpoonup> string list"
  Body :: string

definition Header_Get :: "(string \<rightharpoonup> string list) \<Rightarrow> string \<Rightarrow> string" where
  "Header_Get h k = (case h k of None \<Rightarrow> '''' | Some [] \<Rightarrow> '''' | Some (v # _) \<Rightarrow> v)"

subsection \<open>\<open>strings\<close>\<close>

definition HasPrefix :: "string \<Rightarrow> string \<Rightarrow> bool" where
  "HasPrefix s p = (take (length p) s = p)"

text \<open>\<open>strings.Replace(s, old, new, 1)\<close>: the first occurrence of \<open>old\<close> is replaced.\<close>

fun Replace1 :: "string \<Rightarrow> string \<Rightarrow> string \<Rightarrow> string" where
  "Replace1 [] old new = (if old = [] then new else [])"
| "Replace1 (c # cs) old new =
     (if HasPrefix (c # cs) old then new @ drop (length old) (c # cs)
      else c # Replace1 cs old new)"

definition removeKeyPath :: "string \<Rightarrow> string" where
  "removeKeyPath s = Replace1 s ''/key'' ''''"

subsection \<open>The node behind the server\<close>

text \<open>The \<open>event\<close> struct that \<open>handleKeyPost\<close> fills in, and the anonymous response struct of
  \<open>handleKeyGet\<close>.\<close>

record event =
  Type :: string
  Key :: string
  Value :: int

record keyResponse =
  respValue :: int
  respIsLeader :: string
  respNodes :: string

text \<open>The collaborators of the handlers are outside this file: \<open>encoding/json\<close> and the raft
  node. They are parameters of the model. \<open>json_Decode\<close> is \<open>Decode\<close> into the request struct
  \<open>{Value int}\<close>; the two \<open>json_Marshal\<close> functions are \<open>json.Marshal\<close> at the two struct
  types; \<open>raft_Apply\<close> and \<open>raft_AddVoter\<close> give what \<open>Error()\<close> of the returned future
  yields (\<open>None\<close> is \<open>nil\<close>); \<open>raft_Leader\<close> is \<open>raftNode.Leader()\<close>.\<close>

record Env =
  json_Decode :: "string \<Rightarrow> error + int"
  json_Marshal_event :: "event \<Rightarrow> error + string"
  json_Marshal_response :: "keyResponse \<Rightarrow> error + string"
  raft_Apply :: "string \<Rightarrow> Duration \<Rightarrow> error option"
  raft_AddVoter :: "string \<Rightarrow> string \<Rightarrow> nat \<Rightarrow> Duration \<Rightarrow> error option"
  raft_Leader :: string

text \<open>\<open>node.fsm.stateValue\<close>, the table the GET handler reads.\<close>

type_synonym stateValue = "string \<rightharpoonup> int"

text \<open>Calls made on the raft node and lines written to the logger, in the order they happen.\<close>

datatype raftCall =
    ApplyCall string Duration
  | AddVoterCall string string nat Duration
  | LeaderCall

text \<open>Fields of a log line. \<open>ZFormatted k v\<close> stands for
  \<open>zap.String(k, fmt.Sprintf("%+v", v))\<close>: the value is kept, not its rendering.\<close>

datatype 'a zapField = ZString string string | ZError error | ZFormatted string 'a

datatype 'a logLine = LogError string "'a zapField list" | LogInfo string "'a zapField list"

record Handling =
  w :: ResponseWriter
  raftCalls :: "raftCall list"
  logged :: "unit logLine list"

definition newHandling :: Handling where
  "newHandling = \<lparr>w = newResponseWriter, raftCalls = [], logged = []\<rparr>"

definition respond :: "(ResponseWriter \<Rightarrow> ResponseWriter) \<Rightarrow> Handling \<Rightarrow> Handling" where
  "respond f h = h\<lparr>w := f (w h)\<rparr>"

definition called :: "raftCall \<Rightarrow> Handling \<Rightarrow> Handling" where
  "called c h = h\<lparr>raftCalls := raftCalls h @ [c]\<rparr>"

definition logs :: "unit logLine \<Rightarrow> Handling \<Rightarrow> Handling" where
  "logs l h = h\<lparr>logged := logged h @ [l]\<rparr>"

subsection \<open>Http utils\<close>

definition statusNotFound :: "ResponseWriter \<Rightarrow> ResponseWriter" where
  "statusNotFound rw = Write ''{\"status\": \"404 not found\"}'' (WriteHeader StatusNotFound rw)"

definition statusInternalError :: "ResponseWriter \<Rightarrow> ResponseWriter" where
  "statusInternalError rw =
     Write ''{\"status\": \"internal server error\"}'' (WriteHeader StatusInternalServerError rw)"

subsection \<open>The handlers\<close>

definition handleKeyPost :: "Env \<Rightarrow> Request \<Rightarrow> Handling \<Rightarrow> Handling" where
  "handleKeyPost env r h =
     (let key = removeKeyPath (URLPath r) in
      case json_Decode env (Body r) of
        Inl err \<Rightarrow>
          respond (WriteHeader StatusBadRequest) (logs (LogError ''Bad request'' [ZError err]) h)
      | Inr v \<Rightarrow>
          (let ev = \<lparr>Type = ''set'', Key = key, Value = v\<rparr> in
           case json_Marshal_event env ev of
             Inl err \<Rightarrow>
               respond statusInternalError
                 (logs (LogError ''Failed to marshal response'' [ZError err]) h)
           | Inr eventBytes \<Rightarrow>
               (let h1 = called (ApplyCall eventBytes (5 * Second)) h in
                case raft_Apply env eventBytes (5 * Second) of
                  Some err \<Rightarrow> respond statusInternalError h1
                | None \<Rightarrow> respond (WriteHeader StatusOK) h1)))"

definition handleKeyGet :: "Env \<Rightarrow> stateValue \<Rightarrow> Request \<Rightarrow> Handling \<Rightarrow> Handling" where
  "handleKeyGet env sv r h =
     (let h1 = respond (WriteHeader StatusOK) h;
          key = removeKeyPath (URLPath r) in
      case sv key of
        None \<Rightarrow> respond statusNotFound h1
      | Some val \<Rightarrow>
          (let h2 = called LeaderCall h1;
               response = \<lparr>respValue = val, respIsLeader = raft_Leader env, respNodes = ''''\<rparr> in
           case json_Marshal_response env response of
             Inl err \<Rightarrow>
               respond statusInternalError
                 (logs (LogError ''Failed to marshal response'' [ZError err]) h2)
           | Inr responseBytes \<Rightarrow> respond (Write responseBytes) h2))"

definition handleJoin :: "Env \<Rightarrow> Request \<Rightarrow> Handling \<Rightarrow> Handling" where
  "handleJoin env r h =
     (let peerAddress = Header_Get (Header r) ''Peer-Address'';
          h1 = (if peerAddress = ''''
                then respond (WriteHeader StatusBadRequest)
                       (logs (LogError ''Peer-Address not set on request'' []) h)
                else h);
          h2 = called (AddVoterCall peerAddress peerAddress 0 0) h1 in
      case raft_AddVoter env peerAddress peerAddress 0 0 of
        Some err \<Rightarrow>
          respond statusInternalError
            (logs (LogError ''Error joining peer to Raft''
                     [ZString ''peer.remoteaddr'' peerAddress, ZError err]) h2)
      | None \<Rightarrow>
          respond (WriteHeader StatusOK)
            (logs (LogInfo ''Peer joined Raft'' [ZString ''peer.remoteaddr'' peerAddress]) h2))"

definition handleRequest :: "Env \<Rightarrow> stateValue \<Rightarrow> Request \<Rightarrow> Handling \<Rightarrow> Handling" where
  "handleRequest env sv r h =
     (if Method r = MethodPost then handleKeyPost env r h
      else if Method r = MethodGet then handleKeyGet env sv r h
      else respond (WriteHeader StatusMethodNotAllowed) h)"

definition ServeHTTP :: "Env \<Rightarrow> stateValue \<Rightarrow> Request \<Rightarrow> Handling" where
  "ServeHTTP env sv r =
     (if HasPrefix (URLPath r) ''/key'' then handleRequest env sv r newHandling
      else if HasPrefix (URLPath r) ''/join'' then handleJoin env r newHandling
      else respond (WriteHeader StatusBadRequest) newHandling)"

section \<open>The server (\<open>package server\<close>)\<close>

subsection \<open>Gossip events (\<open>serf\<close>)\<close>

record Member =
  Name :: string
  Addr :: string
  Tags :: "string \<rightharpoonup> string"

datatype EventType =
    EventMemberJoin | EventMemberLeave | EventMemberFailed | EventMemberUpdate
  | EventMemberReap | EventUser | EventQuery

text \<open>\<open>serf.Event\<close> is an interface; \<open>MemberEvent\<close> carries its type and its members, and the
  other two implementations report \<open>EventUser\<close> and \<open>EventQuery\<close>.\<close>

datatype Event = MemberEvent EventType "Member list" | UserEvent string | Query string

fun EventType_of :: "Event \<Rightarrow> EventType" where
  "EventType_of (MemberEvent t ms) = t"
| "EventType_of (UserEvent n) = EventUser"
| "EventType_of (Query n) = EventQuery"

subsection \<open>Node records\<close>

text \<open>Modelled from the spec: the type of the value \<open>metadata.Add\<close> returns is not in the
  sources; the handler reads its \<open>Id()\<close> and \<open>RaftAddr()\<close>. It is the spec's NodeRecord:
  id, gossip address, consensus address and status.\<close>

datatype NodeStatus = Alive | Left | Failed

record NodeRecord =
  node_id :: string
  gossipAddress :: string
  consensusAddress :: string
  nodeStatus :: NodeStatus

definition Id :: "NodeRecord \<Rightarrow> string" where
  "Id nd = node_id nd"

definition RaftAddr :: "NodeRecord \<Rightarrow> string" where
  "RaftAddr nd = consensusAddress nd"

subsection \<open>The raft agent and the metadata store, as the server sees them\<close>

text \<open>\<open>multiraft.KVData\<close>, the entry \<open>SetKeyVal\<close> hands to \<open>Apply\<close>.\<close>

record KVData =
  KVData_Key :: string
  KVData_Val :: string

text \<open>The \<open>raftAgent\<close> interface and \<open>metadata.Add\<close> are implemented outside these sources.
  They are parameters: \<open>'r\<close> is the state of the agent, \<open>'m\<close> the state of the metadata
  store, and every method takes the state and returns its result (an \<open>error option\<close>,
  \<open>None\<close> for \<open>nil\<close>) with the new state. \<open>Add\<close> returns a pair, as the Go method does.\<close>

record ('r, 'm) Deps =
  IsLeader :: "'r \<Rightarrow> bool"
  AddVoter :: "string \<Rightarrow> string \<Rightarrow> 'r \<Rightarrow> error option \<times> 'r"
  Apply :: "KVData \<Rightarrow> 'r \<Rightarrow> error option \<times> 'r"
  Add :: "Member \<Rightarrow> 'm \<Rightarrow> (NodeRecord \<times> error option) \<times> 'm"

text \<open>Calls the server makes on the raft agent, in order.\<close>

datatype agentCall = CallIsLeader | CallAddVoter string string | CallApply KVData

datatype logValue = AMember Member | AMembers "Member list" | AnEvent Event

record ('r, 'm) server =
  metadata :: 'm
  raftAgent :: 'r
  agentCalls :: "agentCall list"
  logger :: "logValue logLine list"

definition calls :: "agentCall \<Rightarrow> ('r, 'm) server \<Rightarrow> ('r, 'm) server" where
  "calls c s = s\<lparr>agentCalls := agentCalls s @ [c]\<rparr>"

definition logsLine :: "logValue logLine \<Rightarrow> ('r, 'm) server \<Rightarrow> ('r, 'm) server" where
  "logsLine l s = s\<lparr>logger := logger s @ [l]\<rparr>"

subsection \<open>\<open>SetKeyVal\<close>\<close>

definition SetKeyVal_kve :: "string \<Rightarrow> string \<Rightarrow> string \<Rightarrow> string \<Rightarrow> KVData" where
  "SetKeyVal_kve table key col val =
     \<lparr>KVData_Key = table @ '':'' @ key @ '':'' @ col, KVData_Val = val\<rparr>"

definition SetKeyVal ::
  "('r, 'm) Deps \<Rightarrow> string \<Rightarrow> string \<Rightarrow> string \<Rightarrow> string \<Rightarrow> ('r, 'm) server
     \<Rightarrow> error option \<times> ('r, 'm) server" where
  "SetKeyVal d table key col val s =
     (let kve = SetKeyVal_kve table key col val;
          s1 = calls (CallApply kve) s;
          (err, r) = Apply d kve (raftAgent s1)
      in (err, s1\<lparr>raftAgent := r\<rparr>))"

subsection \<open>\<open>HandleEvent\<close>\<close>

text \<open>The body of the loop over \<open>me.Members\<close> of a join event.\<close>

definition joinMember :: "('r, 'm) Deps \<Rightarrow> Member \<Rightarrow> ('r, 'm) server \<Rightarrow> ('r, 'm) server" where
  "joinMember d m s =
     (let ((nodedata, err), md) = Add d m (metadata s);
          s1 = s\<lparr>metadata := md\<rparr>;
          s2 = (case err of
                  Some e \<Rightarrow>
                    logsLine (LogError ''Error processing metadata''
                                [ZFormatted ''serf.Member'' (AMember m), ZError e]) s1
                | None \<Rightarrow> s1);
          s3 = calls CallIsLeader s2
      in if \<not> IsLeader d (raftAgent s3)
         then logsLine (LogInfo ''Not the raft leader, skipping join'' []) s3
         else
           (let s4 = calls (CallAddVoter (Id nodedata) (RaftAddr nodedata)) s3;
                (err', r) = AddVoter d (Id nodedata) (RaftAddr nodedata) (raftAgent s4);
                s5 = s4\<lparr>raftAgent := r\<rparr>;
                s6 = (case err' of
                        Some e \<Rightarrow>
                          logsLine (LogError ''Error joining peer to Raft''
                                      [ZString ''peer.id'' (Id nodedata),
                                       ZString ''peer.remoteaddr'' (RaftAddr nodedata),
                                       ZError e]) s5
                      | None \<Rightarrow> s5)
            in logsLine (LogInfo ''Peer joined Raft''
                           [ZString ''peer.id'' (Id nodedata),
                            ZString ''peer.remoteaddr'' (RaftAddr nodedata)]) s6))"

fun joinMembers :: "('r, 'm) Deps \<Rightarrow> Member list \<Rightarrow> ('r, 'm) server \<Rightarrow> ('r, 'm) server" where
  "joinMembers d [] s = s"
| "joinMembers d (m # ms) s = joinMembers d ms (joinMember d m s)"

fun HandleEvent :: "('r, 'm) Deps \<Rightarrow> Event \<Rightarrow> ('r, 'm) server \<Rightarrow> ('r, 'm) server" where
  "HandleEvent d (MemberEvent EventMemberJoin members) s =
     joinMembers d members
       (logsLine (LogInfo ''Server Serf Handler: Member Join''
                    [ZFormatted ''serf-event'' (AMembers members)]) s)"
| "HandleEvent d (MemberEvent EventMemberReap members) s =
     logsLine (LogInfo ''Server Serf Handler: Member Reap''
                 [ZFormatted ''serf-event'' (AnEvent (MemberEvent EventMemberReap members))]) s"
| "HandleEvent d (MemberEvent EventMemberLeave members) s =
     logsLine (LogInfo ''Server Serf Handler: Member Leave/Failed''
                 [ZFormatted ''serf-event'' (AnEvent (MemberEvent EventMemberLeave members))]) s"
| "HandleEvent d (MemberEvent EventMemberFailed members) s =
     logsLine (LogInfo ''Server Serf Handler: Member Leave/Failed''
                 [ZFormatted ''serf-event'' (AnEvent (MemberEvent EventMemberFailed members))]) s"
| "HandleEvent d e s =
     logsLine (LogInfo ''Server Serf Handler: Unhandled type''
                 [ZFormatted ''serf-event'' (AnEvent e)]) s"

section \<open>The Metadata Store\<close>

text \<open>Modelled from the spec: the type \<open>metadata\<close>, \<open>NewMetadata\<close> and \<open>Add\<close> are not in the
  sources. The store maps a node id to its NodeRecord. \<open>Add\<close> parses a member descriptor (its
  name, and the tag that holds the consensus address) and upserts the record; without that tag it
  fails with \<open>MalformedMemberError\<close> and leaves the store as it is, returning the zero record
  with the error. The name of the tag is a parameter. \<open>HandleEvent\<close> takes \<open>Add\<close> as a
  parameter; this store stands in for it in the concrete values only.\<close>

type_synonym metadataStore = "string \<rightharpoonup> NodeRecord"

definition NewMetadata :: metadataStore where
  "NewMetadata = Map.empty"

definition zeroNodeRecord :: NodeRecord where
  "zeroNodeRecord =
     \<lparr>node_id = '''', gossipAddress = '''', consensusAddress = '''', nodeStatus = Alive\<rparr>"

definition metadata_Add ::
  "string \<Rightarrow> Member \<Rightarrow> metadataStore \<Rightarrow> (NodeRecord \<times> error option) \<times> metadataStore" where
  "metadata_Add tag m md =
     (case Tags m tag of
        None \<Rightarrow> ((zeroNodeRecord, Some MalformedMemberError), md)
      | Some a \<Rightarrow>
          (let nd = \<lparr>node_id = Name m, gossipAddress = Addr m, consensusAddress = a,
                     nodeStatus = Alive\<rparr>
           in ((nd, None), md(Name m \<mapsto> nd))))"


section \<open>\<open>Serve\<close>: the tasks of the error group\<close>

text \<open>\<open>Serve\<close> starts six goroutines in one \<open>errgroup\<close> and waits for all of them. The
  goroutines run concurrently: a run of \<open>Serve\<close> is a sequence of atomic steps, each taken by
  one task or by the surroundings, in any order the scheduler picks. \<open>monitorLeadership\<close> is
  outside these sources, so its task may return at any moment, with or without an error; the
  serf agent closes its \<open>ShutdownCh\<close> at a moment of its own.\<close>

datatype occurrence =
    Cancelled
  | SerfShutdownInvoked | SerfShutdownReturned
  | RaftShutdownInvoked | RaftShutdownReturned
  | ServeReturned

datatype task = HttpTask | SerfTask | SignalTask | SerfCleanup | RaftCleanup

datatype action =
    Run task
  | MonitorReturns "error option"
  | Interrupt
  | ShutdownChCloses
  | WaitReturns

datatype serfPoint = SerfStarting | SerfStartFailed | SerfRunning | SerfStopped | SerfReturned

datatype signalPoint = SignalWaiting | SignalCaught | SignalReturned

datatype cleanupPoint = AwaitingDone | InShutdown | ShutdownOver | CleanupReturned

text \<open>What the calls on the two agents return.\<close>

record Outcomes =
  serfStart :: "error option"
  serfShutdown :: "error option"
  raftShutdown :: "error option"

record serving =
  ctxDone :: bool
  signalChan :: bool
  shutdownCh :: bool
  monitorReturned :: bool
  httpReturned :: bool
  serfAt :: serfPoint
  signalAt :: signalPoint
  serfCleanupAt :: cleanupPoint
  raftCleanupAt :: cleanupPoint
  groupErr :: "error option"
  served :: "error option option"
  occurred :: "occurrence list"

definition started :: serving where
  "started =
     \<lparr>ctxDone = False, signalChan = False, shutdownCh = False, monitorReturned = False,
      httpReturned = False, serfAt = SerfStarting, signalAt = SignalWaiting,
      serfCleanupAt = AwaitingDone, raftCleanupAt = AwaitingDone, groupErr = None,
      served = None, occurred = []\<rparr>"

definition occurs :: "occurrence \<Rightarrow> serving \<Rightarrow> serving" where
  "occurs x s = s\<lparr>occurred := occurred s @ [x]\<rparr>"

text \<open>\<open>can()\<close>: cancels the context; a second call changes nothing.\<close>

definition can :: "serving \<Rightarrow> serving" where
  "can s = (if ctxDone s then s else occurs Cancelled (s\<lparr>ctxDone := True\<rparr>))"

text \<open>A function passed to \<open>g.Go\<close> returns: the group keeps the first non-nil error and
  cancels the context on it.\<close>

definition returns :: "error option \<Rightarrow> serving \<Rightarrow> serving" where
  "returns err s =
     (case err of
        None \<Rightarrow> s
      | Some e \<Rightarrow> can (s\<lparr>groupErr := (case groupErr s of None \<Rightarrow> Some e | Some e0 \<Rightarrow> Some e0)\<rparr>))"

definition allReturned :: "serving \<Rightarrow> bool" where
  "allReturned s =
     (monitorReturned s \<and> httpReturned s \<and> serfAt s = SerfReturned \<and>
      signalAt s = SignalReturned \<and>
      serfCleanupAt s = CleanupReturned \<and> raftCleanupAt s = CleanupReturned)"

text \<open>One step of a run. A step that is not enabled leaves the state as it is. A call of
  \<open>can()\<close>, the return of a \<open>Shutdown()\<close> call, and the return of a function to the group
  (which hands its error over) are steps of their own, so that other tasks can act between
  them.
  \<^item> \<open>Run HttpTask\<close>: the function starts \<open>httpServer.Start\<close> in a goroutine of its own and
    returns \<open>nil\<close>.
  \<^item> \<open>Run SerfTask\<close>: first \<open>serfAgent.Start()\<close>; on an error the task calls \<open>can()\<close>, and
    in its next step returns the error. Otherwise it blocks on \<open>ShutdownCh()\<close>; once the
    channel is closed it calls \<open>can()\<close>, and in its next step returns \<open>nil\<close>.
  \<^item> \<open>Run SignalTask\<close>: the \<open>select\<close> on \<open>ctx.Done()\<close> and \<open>signalChan\<close>; on a done
    context the task returns \<open>nil\<close>; on a signal it calls \<open>can()\<close>, and in its next step
    returns \<open>nil\<close>.
  \<^item> \<open>Run SerfCleanup\<close>, \<open>Run RaftCleanup\<close>: the task blocks on \<open>ctx.Done()\<close>; then it
    invokes \<open>Shutdown()\<close> of its agent; then the call returns; then the function returns
    what the call returned.
  \<^item> \<open>Interrupt\<close>: the operating system delivers \<open>os.Interrupt\<close> to \<open>signalChan\<close>.
  \<^item> \<open>WaitReturns\<close>: \<open>g.Wait()\<close> returns once every function of the group has returned;
    it cancels the context and yields the first error of the group, which \<open>Serve\<close>
    returns.\<close>

fun step :: "Outcomes \<Rightarrow> action \<Rightarrow> serving \<Rightarrow> serving" where
  "step out (MonitorReturns err) s =
     (if monitorReturned s then s else returns err (s\<lparr>monitorReturned := True\<rparr>))"
| "step out (Run HttpTask) s = s\<lparr>httpReturned := True\<rparr>"
| "step out (Run SerfTask) s =
     (case serfAt s of
        SerfStarting \<Rightarrow>
          (case serfStart out of
             Some e \<Rightarrow> (can s)\<lparr>serfAt := SerfStartFailed\<rparr>
           | None \<Rightarrow> s\<lparr>serfAt := SerfRunning\<rparr>)
      | SerfStartFailed \<Rightarrow> returns (serfStart out) (s\<lparr>serfAt := SerfReturned\<rparr>)
      | SerfRunning \<Rightarrow> (if shutdownCh s then (can s)\<lparr>serfAt := SerfStopped\<rparr> else s)
      | SerfStopped \<Rightarrow> returns None (s\<lparr>serfAt := SerfReturned\<rparr>)
      | SerfReturned \<Rightarrow> s)"
| "step out (Run SignalTask) s =
     (case signalAt s of
        SignalWaiting \<Rightarrow>
          (if ctxDone s then returns None (s\<lparr>signalAt := SignalReturned\<rparr>)
           else if signalChan s then (can s)\<lparr>signalAt := SignalCaught\<rparr>
           else s)
      | SignalCaught \<Rightarrow> returns None (s\<lparr>signalAt := SignalReturned\<rparr>)
      | SignalReturned \<Rightarrow> s)"
| "step out (Run SerfCleanup) s =
     (case serfCleanupAt s of
        AwaitingDone \<Rightarrow>
          (if ctxDone s then occurs SerfShutdownInvoked (s\<lparr>serfCleanupAt := InShutdown\<rparr>) else s)
      | InShutdown \<Rightarrow> occurs SerfShutdownReturned (s\<lparr>serfCleanupAt := ShutdownOver\<rparr>)
      | ShutdownOver \<Rightarrow> returns (serfShutdown out) (s\<lparr>serfCleanupAt := CleanupReturned\<rparr>)
      | CleanupReturned \<Rightarrow> s)"
| "step out (Run RaftCleanup) s =
     (case raftCleanupAt s of
        AwaitingDone \<Rightarrow>
          (if ctxDone s then occurs RaftShutdownInvoked (s\<lparr>raftCleanupAt := InShutdown\<rparr>) else s)
      | InShutdown \<Rightarrow> occurs RaftShutdownReturned (s\<lparr>raftCleanupAt := ShutdownOver\<rparr>)
      | ShutdownOver \<Rightarrow> returns (raftShutdown out) (s\<lparr>raftCleanupAt := CleanupReturned\<rparr>)
      | CleanupReturned \<Rightarrow> s)"
| "step out Interrupt s = s\<lparr>signalChan := True\<rparr>"
| "step out ShutdownChCloses s = s\<lparr>shutdownCh := True\<rparr>"
| "step out WaitReturns s =
     (if served s = None \<and> allReturned s
      then occurs ServeReturned ((can s)\<lparr>served := Some (groupErr s)\<rparr>)
      else s)"

fun run :: "Outcomes \<Rightarrow> action list \<Rightarrow> serving \<Rightarrow> serving" where
  "run out [] s = s"
| "run out (a # as) s = run out as (step out a s)"

text \<open>\<open>precedes a b xs\<close>: every \<open>b\<close> in \<open>xs\<close> comes after some \<open>a\<close>.\<close>

fun precedes :: "'a \<Rightarrow> 'a \<Rightarrow> 'a list \<Rightarrow> bool" where
  "precedes a b [] = True"
| "precedes a b (x # xs) = (if x = a then True else if x = b then False else precedes a b xs)"

text \<open>What holds at every moment of a run: the occurrences so far agree with the points the
  tasks have reached, a cleanup task is past its wait only when the context is done, and
  \<open>Serve\<close> has returned only when both cleanup tasks have.\<close>

definition serveInv :: "serving \<Rightarrow> bool" where
  "serveInv s =
     ((Cancelled \<in> set (occurred s) \<longleftrightarrow> ctxDone s) \<and>
      (SerfShutdownInvoked \<in> set (occurred s) \<longleftrightarrow> serfCleanupAt s \<noteq> AwaitingDone) \<and>
      (SerfShutdownReturned \<in> set (occurred s) \<longleftrightarrow>
         serfCleanupAt s = ShutdownOver \<or> serfCleanupAt s = CleanupReturned) \<and>
      (RaftShutdownInvoked \<in> set (occurred s) \<longleftrightarrow> raftCleanupAt s \<noteq> AwaitingDone) \<and>
      (RaftShutdownReturned \<in> set (occurred s) \<longleftrightarrow>
         raftCleanupAt s = ShutdownOver \<or> raftCleanupAt s = CleanupReturned) \<and>
      (ServeReturned \<in> set (occurred s) \<longleftrightarrow> served s \<noteq> None) \<and>
      (serfCleanupAt s \<noteq> AwaitingDone \<longrightarrow> ctxDone s) \<and>
      (raftCleanupAt s \<noteq> AwaitingDone \<longrightarrow> ctxDone s) \<and>
      (served s \<noteq> None \<longrightarrow>
         serfCleanupAt s = CleanupReturned \<and> raftCleanupAt s = CleanupReturned) \<and>
      precedes Cancelled SerfShutdownInvoked (occurred s) \<and>
      precedes Cancelled RaftShutdownInvoked (occurred s) \<and>
      precedes SerfShutdownInvoked SerfShutdownReturned (occurred s) \<and>
      precedes RaftShutdownInvoked RaftShutdownReturned (occurred s) \<and>
      precedes SerfShutdownReturned ServeReturned (occurred s) \<and>
      precedes RaftShutdownReturned ServeReturned (occurred s))"

section \<open>Concrete values\<close>

text \<open>A json library and a raft node for the HTTP handlers: the decoder accepts one body, the
  raft node accepts every call.\<close>

definition exampleEnv :: Env where
  "exampleEnv =
     \<lparr>json_Decode = (\<lambda>b. if b = ''{\"value\": 7}'' then Inr 7 else Inl (Error ''invalid'')),
      json_Marshal_event = (\<lambda>e. Inr (Type e @ '' '' @ Key e)),
      json_Marshal_response = (\<lambda>r. Inr (respIsLeader r)),
      raft_Apply = (\<lambda>b d. None),
      raft_AddVoter = (\<lambda>i a p d. None),
      raft_Leader = ''10.0.0.1:9000''\<rparr>"

text \<open>A raft agent whose state is its leadership flag, with the Metadata Store of the spec
  reading the consensus address from the tag \<open>raft_addr\<close>.\<close>

definition exampleDeps :: "(bool, metadataStore) Deps" where
  "exampleDeps =
     \<lparr>IsLeader = (\<lambda>r. r),
      AddVoter = (\<lambda>i a r. (None, r)),
      Apply = (\<lambda>k r. (if r then None else Some (Error ''not leader''), r)),
      Add = metadata_Add ''raft_addr''\<rparr>"

definition exampleServer :: "bool \<Rightarrow> (bool, metadataStore) server" where
  "exampleServer leader =
     \<lparr>metadata = NewMetadata, raftAgent = leader, agentCalls = [], logger = []\<rparr>"

definition memberN2 :: Member where
  "memberN2 = \<lparr>Name = ''n2'', Addr = ''10.0.0.2'', Tags = [''raft_addr'' \<mapsto> ''10.0.0.2:9000'']\<rparr>"

definition memberBad :: Member where
  "memberBad = \<lparr>Name = ''n3'', Addr = ''10.0.0.3'', Tags = Map.empty\<rparr>"

definition allSucceed :: Outcomes where
  "allSucceed = \<lparr>serfStart = None, serfShutdown = None, raftShutdown = None\<rparr>"

section \<open>What a join event leaves behind\<close>



section \<open>Facts about the HTTP front end\<close>

lemma HasPrefix_iff: "HasPrefix s p \<longleftrightarrow> (\<exists>t. s = p @ t)"
  unfolding HasPrefix_def by (metis append_eq_conv_conj)

lemma join_path_not_key_path: "HasPrefix p ''/join'' \<Longrightarrow> \<not> HasPrefix p ''/key''"
  by (auto simp: HasPrefix_iff)

lemmas handler_defs =
  ServeHTTP_def handleRequest_def handleKeyGet_def handleKeyPost_def handleJoin_def
  HasPrefix_def removeKeyPath_def respond_def called_def logs_def newHandling_def
  newResponseWriter_def WriteHeader_def Write_def statusNotFound_def statusInternalError_def
  StatusOK_def StatusBadRequest_def StatusNotFound_def StatusMethodNotAllowed_def
  StatusInternalServerError_def MethodGet_def MethodPost_def Header_Get_def

text \<open>C5. A GET on a key path whose key has no entry is to be answered with status 404.
  \<open>handleKeyGet\<close> writes the header with status 200 before it looks the key up, so the
  \<open>WriteHeader(404)\<close> of \<open>statusNotFound\<close> comes second and is ignored: on an empty table,
  \<open>GET /key/foo\<close> is answered with status 200 and the body of the not-found reply.\<close>

theorem handleKeyGet_absent_key_status:
  "w (ServeHTTP exampleEnv Map.empty
        \<lparr>Method = ''GET'', URLPath = ''/key/foo'', Header = Map.empty, Body = ''''\<rparr>) =
     \<lparr>status = Some 200, body = ''{\"status\": \"404 not found\"}''\<rparr>"
  by (simp add: handler_defs)

text \<open>For a key that is present, the GET handler asks the raft node for the leader only, makes
  no \<open>Apply\<close> call, and answers 200 with the marshalled value and leader.\<close>

lemma handleKeyGet_present_key:
  assumes "HasPrefix (URLPath r) ''/key''"
    and "Method r = MethodGet"
    and "sv (removeKeyPath (URLPath r)) = Some v"
    and "json_Marshal_response env
           \<lparr>respValue = v, respIsLeader = raft_Leader env, respNodes = ''''\<rparr> = Inr b"
  shows "ServeHTTP env sv r =
           \<lparr>w = \<lparr>status = Some 200, body = b\<rparr>, raftCalls = [LeaderCall], logged = []\<rparr>"
  using assms
  by (simp add: ServeHTTP_def handleRequest_def handleKeyGet_def respond_def called_def
      newHandling_def newResponseWriter_def WriteHeader_def Write_def StatusOK_def
      MethodGet_def MethodPost_def)

text \<open>C6. A POST on a key path with a decodable body submits the write to \<open>Apply\<close> exactly
  once, with a timeout of five seconds; the status is 200 if and only if the future resolves
  without error, and 500 when it resolves with one. (\<open>json.Marshal\<close> of the event, a struct
  of two strings and an integer, succeeds.)\<close>

theorem handleKeyPost_applies_once:
  assumes "HasPrefix (URLPath r) ''/key''"
    and "Method r = MethodPost"
    and "json_Decode env (Body r) = Inr v"
    and "json_Marshal_event env \<lparr>Type = ''set'', Key = removeKeyPath (URLPath r), Value = v\<rparr>
           = Inr b"
  shows "raftCalls (ServeHTTP env sv r) = [ApplyCall b (5 * Second)] \<and>
         (status (w (ServeHTTP env sv r)) = Some 200 \<longleftrightarrow> raft_Apply env b (5 * Second) = None) \<and>
         (raft_Apply env b (5 * Second) \<noteq> None \<longrightarrow> status (w (ServeHTTP env sv r)) = Some 500)"
  using assms
  by (auto simp: ServeHTTP_def handleRequest_def handleKeyPost_def called_def logs_def
      respond_def newHandling_def Let_def newResponseWriter_def WriteHeader_def Write_def
      statusInternalError_def StatusOK_def StatusInternalServerError_def
      split: option.splits)

text \<open>C6, at \<open>POST /key/foo\<close> with the body \<open>{"value": 7}\<close>.\<close>

theorem handleKeyPost_applies_once_witness:
  "raftCalls (ServeHTTP exampleEnv Map.empty
      \<lparr>Method = ''POST'', URLPath = ''/key/foo'', Header = Map.empty,
       Body = ''{\"value\": 7}''\<rparr>) = [ApplyCall ''set /foo'' 5000000000] \<and>
   status (w (ServeHTTP exampleEnv Map.empty
      \<lparr>Method = ''POST'', URLPath = ''/key/foo'', Header = Map.empty,
       Body = ''{\"value\": 7}''\<rparr>)) = Some 200"
proof -
  let ?r = "\<lparr>Method = ''POST'', URLPath = ''/key/foo'', Header = Map.empty,
             Body = ''{\"value\": 7}''\<rparr>"
  have p: "HasPrefix (URLPath ?r) ''/key''" by (simp add: HasPrefix_def)
  have m: "Method ?r = MethodPost" by (simp add: MethodPost_def)
  have d: "json_Decode exampleEnv (Body ?r) = Inr 7" by (simp add: exampleEnv_def)
  have k: "removeKeyPath (URLPath ?r) = ''/foo''" by (simp add: removeKeyPath_def HasPrefix_def)
  have e: "json_Marshal_event exampleEnv
             \<lparr>Type = ''set'', Key = removeKeyPath (URLPath ?r), Value = 7\<rparr> = Inr ''set /foo''"
    unfolding k by (simp add: exampleEnv_def)
  have a: "raft_Apply exampleEnv ''set /foo'' (5 * Second) = None" by (simp add: exampleEnv_def)
  from handleKeyPost_applies_once [OF p m d e, of Map.empty] a show ?thesis
    by (simp add: Second_def)
qed

text \<open>C9. A POST on the join path without a \<open>Peer-Address\<close> header is to be answered with
  status 400 and no \<open>AddVoter\<close> call. \<open>handleJoin\<close> writes status 400 and does not return:
  it goes on to call \<open>AddVoter\<close> with the empty string as id and as address.\<close>

theorem handleJoin_empty_peer_address:
  "status (w (ServeHTTP exampleEnv Map.empty
      \<lparr>Method = ''POST'', URLPath = ''/join'', Header = Map.empty, Body = ''''\<rparr>)) = Some 400 \<and>
   raftCalls (ServeHTTP exampleEnv Map.empty
      \<lparr>Method = ''POST'', URLPath = ''/join'', Header = Map.empty, Body = ''''\<rparr>) =
     [AddVoterCall '''' '''' 0 0]"
  by (simp add: handler_defs exampleEnv_def)

text \<open>C10. On the join path with a non-empty \<open>Peer-Address\<close> header, the one \<open>AddVoter\<close>
  call uses the value of the header both as the server id and as the server address.\<close>

theorem handleJoin_id_is_address:
  assumes "HasPrefix (URLPath r) ''/join''"
    and "Header_Get (Header r) ''Peer-Address'' = a"
    and "a \<noteq> ''''"
  shows "raftCalls (ServeHTTP env sv r) = [AddVoterCall a a 0 0]"
  using assms
  by (auto simp: ServeHTTP_def join_path_not_key_path handleJoin_def called_def logs_def
      respond_def newHandling_def Let_def split: option.splits)

text \<open>C10, at \<open>POST /join\<close> with \<open>Peer-Address: 10.0.0.2:9000\<close>.\<close>

theorem handleJoin_id_is_address_witness:
  "raftCalls (ServeHTTP exampleEnv Map.empty
      \<lparr>Method = ''POST'', URLPath = ''/join'',
       Header = [''Peer-Address'' \<mapsto> [''10.0.0.2:9000'']], Body = ''''\<rparr>) =
     [AddVoterCall ''10.0.0.2:9000'' ''10.0.0.2:9000'' 0 0]"
proof -
  let ?r = "\<lparr>Method = ''POST'', URLPath = ''/join'',
             Header = [''Peer-Address'' \<mapsto> [''10.0.0.2:9000'']], Body = ''''\<rparr>"
  have p: "HasPrefix (URLPath ?r) ''/join''" by (simp add: HasPrefix_def)
  have h: "Header_Get (Header ?r) ''Peer-Address'' = ''10.0.0.2:9000''"
    by (simp add: Header_Get_def)
  have n: "''10.0.0.2:9000'' \<noteq> ''''" by simp
  from handleJoin_id_is_address [OF p h n] show ?thesis .
qed

section \<open>Facts about the server\<close>

subsection \<open>\<open>SetKeyVal\<close>\<close>

lemma split_at_first:
  "c \<notin> set a \<Longrightarrow> c \<notin> set a' \<Longrightarrow> a @ c # x = a' @ c # x' \<Longrightarrow> a = a' \<and> x = x'"
proof (induction a arbitrary: a')
  case Nil
  then show ?case by (cases a') auto
next
  case (Cons y ys)
  then show ?case by (cases a') auto
qed

text \<open>C7, as stated, fails: \<open>SetKeyVal\<close> hands \<open>Apply\<close> an entry of two fields, the key
  \<open>table:row:column\<close> joined with colons and the value, and two distinct triples can give
  the same key.\<close>

theorem SetKeyVal_key_collision:
  "(''a:b'', ''c'', ''d'') \<noteq> (''a'', ''b:c'', ''d'') \<and>
   agentCalls (snd (SetKeyVal exampleDeps ''a:b'' ''c'' ''d'' ''v'' (exampleServer True))) =
   agentCalls (snd (SetKeyVal exampleDeps ''a'' ''b:c'' ''d'' ''v'' (exampleServer True)))"
  by (simp add: SetKeyVal_def SetKeyVal_kve_def calls_def exampleDeps_def exampleServer_def)

text \<open>C7, amended. The entry submitted to \<open>Apply\<close> carries the key
  \<open>table:row:column\<close> and the value; triples whose table and row contain no colon and that
  give the same key are equal.\<close>

theorem SetKeyVal_key_injective:
  "agentCalls (snd (SetKeyVal d t r c v s)) =
     agentCalls s @ [CallApply \<lparr>KVData_Key = t @ '':'' @ r @ '':'' @ c, KVData_Val = v\<rparr>] \<and>
   (CHR '':'' \<notin> set t \<and> CHR '':'' \<notin> set r \<and> CHR '':'' \<notin> set t' \<and> CHR '':'' \<notin> set r' \<and>
    KVData_Key (SetKeyVal_kve t r c v) = KVData_Key (SetKeyVal_kve t' r' c' v') \<longrightarrow>
      t = t' \<and> r = r' \<and> c = c')"
proof (intro conjI impI)
  show "agentCalls (snd (SetKeyVal d t r c v s)) =
          agentCalls s @ [CallApply \<lparr>KVData_Key = t @ '':'' @ r @ '':'' @ c, KVData_Val = v\<rparr>]"
    by (simp add: SetKeyVal_def SetKeyVal_kve_def calls_def Let_def split: prod.splits)
next
  assume a: "CHR '':'' \<notin> set t \<and> CHR '':'' \<notin> set r \<and> CHR '':'' \<notin> set t' \<and>
             CHR '':'' \<notin> set r' \<and>
             KVData_Key (SetKeyVal_kve t r c v) = KVData_Key (SetKeyVal_kve t' r' c' v')"
  then have e: "t @ CHR '':'' # (r @ CHR '':'' # c) = t' @ CHR '':'' # (r' @ CHR '':'' # c')"
    by (simp add: SetKeyVal_kve_def)
  from a have nt: "CHR '':'' \<notin> set t" and nr: "CHR '':'' \<notin> set r"
    and nt': "CHR '':'' \<notin> set t'" and nr': "CHR '':'' \<notin> set r'" by simp_all
  from split_at_first [OF nt nt' e]
  have t: "t = t'" and e2: "r @ CHR '':'' # c = r' @ CHR '':'' # c'" by simp_all
  from split_at_first [OF nr nr' e2] t
  show "t = t'" "r = r'" "c = c'" by simp_all
qed

text \<open>C7, amended, at the write \<open>(users, u1, email, a@x.com)\<close>.\<close>

theorem SetKeyVal_key_injective_witness:
  "agentCalls (snd (SetKeyVal exampleDeps ''users'' ''u1'' ''email'' ''a@x.com''
                      (exampleServer True))) =
     [CallApply \<lparr>KVData_Key = ''users:u1:email'', KVData_Val = ''a@x.com''\<rparr>] \<and>
   KVData_Key (SetKeyVal_kve ''users'' ''u1'' ''email'' ''a@x.com'') \<noteq>
     KVData_Key (SetKeyVal_kve ''users'' ''u2'' ''email'' ''a@x.com'')"
proof -
  have a: "CHR '':'' \<notin> set ''users''" and b: "CHR '':'' \<notin> set ''u1''"
    and c: "CHR '':'' \<notin> set ''u2''" by simp_all
  from SetKeyVal_key_injective [of exampleDeps "''users''" "''u1''" "''email''" "''a@x.com''"
      "exampleServer True" "''users''" "''u2''" "''email''" "''a@x.com''"] a b c
  show ?thesis by (auto simp: exampleServer_def)
qed

subsection \<open>\<open>HandleEvent\<close>\<close>




lemma logsLine_simps:
  "agentCalls (logsLine l s) = agentCalls s" "raftAgent (logsLine l s) = raftAgent s"
  "metadata (logsLine l s) = metadata s" "logger (logsLine l s) = logger s @ [l]"
  by (simp_all add: logsLine_def)












text \<open>C4. A member on which \<open>Add\<close> fails is to be logged and skipped, with no \<open>IsLeader\<close>
  check and no \<open>AddVoter\<close> call for it. The loop body logs the error and goes on: on the
  leader, a join event with a malformed member and a well-formed one reads \<open>IsLeader\<close> for
  both and calls \<open>AddVoter\<close> for both, for the malformed one with the id and address of the
  record that came back with the error.\<close>

theorem join_event_malformed_member_not_skipped:
  "agentCalls (HandleEvent exampleDeps (MemberEvent EventMemberJoin [memberBad, memberN2])
                 (exampleServer True)) =
     [CallIsLeader, CallAddVoter '''' '''', CallIsLeader, CallAddVoter ''n2'' ''10.0.0.2:9000'']"
  by (simp add: exampleDeps_def exampleServer_def memberBad_def memberN2_def joinMember_def
      metadata_Add_def NewMetadata_def calls_def logsLine_def Id_def RaftAddr_def
      zeroNodeRecord_def Let_def)

text \<open>C8. A Leave, Failed or Reap event makes no call on the raft agent: the handler writes
  one line to the log and changes neither the agent nor the Metadata Store.\<close>

theorem leave_failed_reap_only_logged:
  assumes "t \<in> {EventMemberLeave, EventMemberFailed, EventMemberReap}"
  shows "agentCalls (HandleEvent d (MemberEvent t ms) s) = agentCalls s \<and>
         raftAgent (HandleEvent d (MemberEvent t ms) s) = raftAgent s \<and>
         metadata (HandleEvent d (MemberEvent t ms) s) = metadata s \<and>
         (\<exists>msg fs. logger (HandleEvent d (MemberEvent t ms) s) = logger s @ [LogInfo msg fs])"
  using assms by (auto simp: logsLine_simps)

text \<open>C8, at a Failed event for member \<open>n2\<close> on the leader.\<close>

theorem leave_failed_reap_only_logged_witness:
  "agentCalls (HandleEvent exampleDeps (MemberEvent EventMemberFailed [memberN2])
                 (exampleServer True)) = [] \<and>
   metadata (HandleEvent exampleDeps (MemberEvent EventMemberFailed [memberN2])
               (exampleServer True)) = NewMetadata"
proof -
  have t: "EventMemberFailed \<in> {EventMemberLeave, EventMemberFailed, EventMemberReap}"
    by simp
  from leave_failed_reap_only_logged [OF t, of exampleDeps "[memberN2]" "exampleServer True"]
  show ?thesis by (simp add: exampleServer_def)
qed

section \<open>Facts about \<open>Serve\<close>\<close>

lemma precedes_snoc:
  "precedes a b (xs @ [x]) = (precedes a b xs \<and> (a \<in> set xs \<or> x = a \<or> x \<noteq> b))"
  by (induction xs) auto

lemma serveInv_started: "serveInv started"
  by (simp add: serveInv_def started_def)

lemma serveInv_can: "serveInv s \<Longrightarrow> serveInv (can s)"
  by (auto simp: serveInv_def can_def occurs_def precedes_snoc)

lemma serveInv_returns: "serveInv s \<Longrightarrow> serveInv (returns e s)"
proof (cases e)
  case None
  assume "serveInv s"
  then show ?thesis using None by (simp add: returns_def)
next
  case (Some x)
  assume "serveInv s"
  then have "serveInv (s\<lparr>groupErr := (case groupErr s of None \<Rightarrow> Some x | Some e0 \<Rightarrow> Some e0)\<rparr>)"
    by (simp add: serveInv_def)
  then show ?thesis using Some by (simp add: returns_def serveInv_can)
qed

lemma serveInv_update:
  "serveInv (s\<lparr>monitorReturned := a\<rparr>) = serveInv s"
  "serveInv (s\<lparr>httpReturned := a\<rparr>) = serveInv s"
  "serveInv (s\<lparr>serfAt := b\<rparr>) = serveInv s"
  "serveInv (s\<lparr>signalAt := c\<rparr>) = serveInv s"
  "serveInv (s\<lparr>signalChan := a\<rparr>) = serveInv s"
  "serveInv (s\<lparr>shutdownCh := a\<rparr>) = serveInv s"
  by (simp_all add: serveInv_def)

lemma serveInv_serf_invoked:
  "serveInv s \<Longrightarrow> ctxDone s \<Longrightarrow> serfCleanupAt s = AwaitingDone \<Longrightarrow>
     serveInv (occurs SerfShutdownInvoked (s\<lparr>serfCleanupAt := InShutdown\<rparr>))"
  by (auto simp: serveInv_def occurs_def precedes_snoc)

lemma serveInv_serf_over:
  "serveInv s \<Longrightarrow> serfCleanupAt s = InShutdown \<Longrightarrow>
     serveInv (occurs SerfShutdownReturned (s\<lparr>serfCleanupAt := ShutdownOver\<rparr>))"
  by (auto simp: serveInv_def occurs_def precedes_snoc)

lemma serveInv_serf_returned:
  "serveInv s \<Longrightarrow> serfCleanupAt s = ShutdownOver \<Longrightarrow>
     serveInv (s\<lparr>serfCleanupAt := CleanupReturned\<rparr>)"
  by (auto simp: serveInv_def)

lemma serveInv_raft_invoked:
  "serveInv s \<Longrightarrow> ctxDone s \<Longrightarrow> raftCleanupAt s = AwaitingDone \<Longrightarrow>
     serveInv (occurs RaftShutdownInvoked (s\<lparr>raftCleanupAt := InShutdown\<rparr>))"
  by (auto simp: serveInv_def occurs_def precedes_snoc)

lemma serveInv_raft_over:
  "serveInv s \<Longrightarrow> raftCleanupAt s = InShutdown \<Longrightarrow>
     serveInv (occurs RaftShutdownReturned (s\<lparr>raftCleanupAt := ShutdownOver\<rparr>))"
  by (auto simp: serveInv_def occurs_def precedes_snoc)

lemma serveInv_raft_returned:
  "serveInv s \<Longrightarrow> raftCleanupAt s = ShutdownOver \<Longrightarrow>
     serveInv (s\<lparr>raftCleanupAt := CleanupReturned\<rparr>)"
  by (auto simp: serveInv_def)

lemma serveInv_wait:
  "serveInv s \<Longrightarrow> served s = None \<Longrightarrow> allReturned s \<Longrightarrow>
     serveInv (occurs ServeReturned ((can s)\<lparr>served := Some e\<rparr>))"
  by (auto simp: serveInv_def occurs_def can_def allReturned_def precedes_snoc)

lemma serveInv_step: "serveInv s \<Longrightarrow> serveInv (step out a s)"
proof (cases a)
  case (Run t)
  assume i: "serveInv s"
  show ?thesis
  proof (cases t)
    case HttpTask
    with Run i show ?thesis by (simp add: serveInv_update)
  next
    case SerfTask
    with Run i show ?thesis
      by (auto simp: serveInv_update serveInv_returns serveInv_can
          split: serfPoint.splits option.splits)
  next
    case SignalTask
    with Run i show ?thesis
      by (auto simp: serveInv_update serveInv_returns serveInv_can split: signalPoint.splits)
  next
    case SerfCleanup
    with Run i show ?thesis
      by (auto simp: serveInv_returns serveInv_serf_invoked serveInv_serf_over
          serveInv_serf_returned split: cleanupPoint.splits)
  next
    case RaftCleanup
    with Run i show ?thesis
      by (auto simp: serveInv_returns serveInv_raft_invoked serveInv_raft_over
          serveInv_raft_returned split: cleanupPoint.splits)
  qed
next
  case (MonitorReturns e)
  assume "serveInv s"
  with MonitorReturns show ?thesis by (auto simp: serveInv_update serveInv_returns)
next
  case Interrupt
  assume "serveInv s"
  with Interrupt show ?thesis by (simp add: serveInv_update)
next
  case ShutdownChCloses
  assume "serveInv s"
  with ShutdownChCloses show ?thesis by (simp add: serveInv_update)
next
  case WaitReturns
  assume "serveInv s"
  with WaitReturns show ?thesis by (auto simp: serveInv_wait)
qed

lemma serveInv_run: "serveInv s \<Longrightarrow> serveInv (run out as s)"
  by (induction as arbitrary: s) (auto simp: serveInv_step)

text \<open>C3, as stated, fails: the two cleanup goroutines both wait for the context and nothing
  orders them. In this run, after an interrupt, the raft cleanup task is scheduled first: the
  raft agent's \<open>Shutdown\<close> is invoked, and has returned, before the serf agent's is invoked.\<close>

theorem serve_raft_shutdown_first:
  "occurred (run allSucceed
      [Interrupt, Run SignalTask, Run SignalTask, Run HttpTask, Run SerfTask,
       Run RaftCleanup, Run RaftCleanup, Run RaftCleanup,
       Run SerfCleanup, Run SerfCleanup, Run SerfCleanup,
       ShutdownChCloses, Run SerfTask, Run SerfTask, MonitorReturns None,
       WaitReturns] started) =
     [Cancelled, RaftShutdownInvoked, RaftShutdownReturned, SerfShutdownInvoked,
      SerfShutdownReturned, ServeReturned] \<and>
   \<not> precedes SerfShutdownInvoked RaftShutdownInvoked (occurred (run allSucceed
      [Interrupt, Run SignalTask, Run SignalTask, Run HttpTask, Run SerfTask,
       Run RaftCleanup, Run RaftCleanup, Run RaftCleanup,
       Run SerfCleanup, Run SerfCleanup, Run SerfCleanup,
       ShutdownChCloses, Run SerfTask, Run SerfTask, MonitorReturns None,
       WaitReturns] started))"
  by (simp add: allSucceed_def started_def can_def returns_def occurs_def allReturned_def)

text \<open>C3, amended. In every run of \<open>Serve\<close>, whatever the scheduler does: the serf agent's
  \<open>Shutdown\<close> and the raft agent's \<open>Shutdown\<close> are each invoked only after the context has
  been cancelled, in no fixed order between the two, and \<open>Serve\<close> returns only after both
  calls have returned.\<close>

theorem serve_returns_after_both_shutdowns:
  "precedes Cancelled SerfShutdownInvoked (occurred (run out as started)) \<and>
   precedes Cancelled RaftShutdownInvoked (occurred (run out as started)) \<and>
   precedes SerfShutdownReturned ServeReturned (occurred (run out as started)) \<and>
   precedes RaftShutdownReturned ServeReturned (occurred (run out as started))"
  using serveInv_run [OF serveInv_started, of out as] by (simp add: serveInv_def)

end
